theory Spec2Isabelle
  imports Complex_Main
begin

section \<open>MyScaleRM: a retrieval adapter over MyScaleDB\<close>

text \<open>
  A shallow embedding of \<^verbatim>\<open>src/dspy/retrieve/MyScaleRM.py\<close>. The class is an
  orchestration layer: it picks an embedding source, calls it, composes an SQL string,
  sends it to a database client and reshapes the rows. The systems it calls (the OpenAI
  endpoint, the transformers library, the database client, Python's \<^verbatim>\<open>str\<close>) are
  parameters of the model, collected in the record \<open>ext\<close>; every theorem holds for
  every behaviour of these systems. The object \<^verbatim>\<open>self\<close> is the record \<open>adapter\<close>, the
  process-wide state is the record \<open>world\<close>, and each method takes both and returns
  both, with the exception or the returned value in a sum type.
\<close>

subsection \<open>Values, errors, events\<close>

text \<open>
  Python values that flow through the adapter. A float is carried, never computed with.
\<close>

datatype pyval =
    PNone
  | PStr string
  | PInt int
  | PFloat real
  | PList "pyval list"

text \<open>
  The exceptions. \<open>ValueError\<close> carries its message, since the class raises three
  different ones. Exceptions that come out of an external system are tagged by their
  origin: \<open>ProviderError\<close> (the OpenAI client), \<open>InferenceError\<close> (tokenizer, model
  forward pass or device move), \<open>DatabaseError\<close> (the database client).
\<close>

datatype error =
    ValueError string
  | ModuleNotFoundError
  | IndexError
  | KeyError string
  | AttributeError string
  | ProviderError string
  | InferenceError string
  | DatabaseError string

datatype device = Cuda0 | Mps | Cpu

text \<open>
  A loaded encoder: its name, the training flag that \<^verbatim>\<open>.eval()\<close> clears and the
  device \<^verbatim>\<open>.to(device)\<close> moved it to. A loaded tokenizer is known by its name.
\<close>

record local_model =
  model_name :: string
  training :: bool
  placed_on :: "device option"

datatype tokenizer = Tokenizer string

type_synonym client_handle = nat

text \<open>A result row of \<^verbatim>\<open>named_results()\<close>: a dictionary from column name to value.\<close>

type_synonym row = "string \<rightharpoonup> pyval"

text \<open>
  The calls the claims speak about, in the order they are made: the calls to external
  systems and the call of \<^verbatim>\<open>get_embeddings\<close>.
\<close>

datatype event =
    GetEmbeddings "string list"
  | OpenAICreate "string option" "string list"
  | LocalEncode "string list"
  | ClientQuery client_handle string
  | LoadModel string
  | LoadTokenizer string
  | MoveToDevice device

subsection \<open>External systems\<close>

text \<open>
  \<open>cache_turn_on\<close> is the flag imported from \<^verbatim>\<open>dsp.modules.cache_utils\<close>;
  \<open>libs_importable\<close> says whether \<^verbatim>\<open>torch\<close> and \<^verbatim>\<open>transformers\<close> import;
  \<open>AutoModel_from_pretrained\<close> and \<open>AutoTokenizer_from_pretrained\<close> return the loaded
  object or the text of the exception; \<open>to_device\<close> returns the text of the exception
  when the move fails; \<open>embeddings_create\<close> returns the embeddings of
  \<^verbatim>\<open>response.data\<close>, in order; \<open>local_encode\<close> is tokenizer, forward pass, mean
  pooling and \<^verbatim>\<open>.tolist()\<close>: one pooled vector per row of the batch;
  \<open>client_query\<close> returns the rows of \<^verbatim>\<open>named_results()\<close>; \<open>py_str\<close> is Python's
  \<^verbatim>\<open>str\<close> on a value that is not a string.
\<close>

record ext =
  cache_turn_on :: bool
  libs_importable :: bool
  AutoModel_from_pretrained :: "string \<Rightarrow> string + local_model"
  AutoTokenizer_from_pretrained :: "string \<Rightarrow> string + tokenizer"
  cuda_is_available :: bool
  mps_is_available :: bool
  to_device :: "local_model \<Rightarrow> device \<Rightarrow> string option"
  embeddings_create :: "string option \<Rightarrow> string list \<Rightarrow> string + pyval list"
  local_encode :: "tokenizer \<Rightarrow> local_model \<Rightarrow> device \<Rightarrow> string list \<Rightarrow> string + pyval list"
  client_query :: "client_handle \<Rightarrow> string \<Rightarrow> string + row list"
  py_str :: "pyval \<Rightarrow> string"

subsection \<open>The adapter and the process state\<close>

text \<open>
  The attributes of \<^verbatim>\<open>self\<close>. The three attributes that only \<^verbatim>\<open>setup_local_model\<close>
  assigns are options: \<open>None\<close> is an attribute that does not exist, and reading it
  raises \<open>AttributeError\<close>.
\<close>

record adapter =
  client :: client_handle
  database :: string
  table :: string
  metadata_columns :: "string list"
  vector_column :: string
  k :: int
  openai_api_key :: "string option"
  model :: "string option"
  use_local_model :: bool
  local_embed_model :: "local_model option"
  local_tokenizer :: "tokenizer option"
  device :: "device option"

text \<open>
  \<open>environ\<close> is \<^verbatim>\<open>os.environ\<close>, a dictionary from names to values;
  \<open>cache\<close> is the store behind \<^verbatim>\<open>CacheMemory\<close>; \<open>trace\<close> lists the calls made so far.
\<close>

record world =
  environ :: "string \<rightharpoonup> string"
  cache :: "string list \<rightharpoonup> pyval"
  trace :: "event list"

definition log_event :: "event \<Rightarrow> world \<Rightarrow> world" where
  "log_event e w = w\<lparr>trace := trace w @ [e]\<rparr>"

subsection \<open>Python helpers\<close>

text \<open>Truth value of an \<^verbatim>\<open>Optional[str]\<close>: \<^verbatim>\<open>None\<close> and \<^verbatim>\<open>""\<close> are false.\<close>

definition truthy :: "string option \<Rightarrow> bool" where
  "truthy s = (case s of None \<Rightarrow> False | Some t \<Rightarrow> t \<noteq> [])"

text \<open>\<^verbatim>\<open>sep.join(xs)\<close>.\<close>

fun py_join :: "string \<Rightarrow> string list \<Rightarrow> string" where
  "py_join sep [] = []"
| "py_join sep [x] = x"
| "py_join sep (x # y # ys) = x @ sep @ py_join sep (y # ys)"

text \<open>
  A replacement field \<^verbatim>\<open>{v}\<close> of an f-string: a string is inserted as it is, any
  other value through \<^verbatim>\<open>str\<close>.
\<close>

definition py_format :: "ext \<Rightarrow> pyval \<Rightarrow> string" where
  "py_format x v = (case v of PStr s \<Rightarrow> s | _ \<Rightarrow> py_str x v)"

text \<open>\<^verbatim>\<open>xs[0]\<close>.\<close>

definition first_item :: "'a list \<Rightarrow> error + 'a" where
  "first_item xs = (case xs of [] \<Rightarrow> Inl IndexError | y # _ \<Rightarrow> Inr y)"

text \<open>\<^verbatim>\<open>row[column]\<close>.\<close>

definition row_get :: "row \<Rightarrow> string \<Rightarrow> error + pyval" where
  "row_get r c = (case r c of None \<Rightarrow> Inl (KeyError c) | Some v \<Rightarrow> Inr v)"

abbreviation newline :: string where
  "newline \<equiv> [CHR 0x0A]"

subsection \<open>Construction\<close>

text \<open>
  \<^verbatim>\<open>setup_local_model\<close>, lines 93 to 126. The two loads run inside one \<^verbatim>\<open>try\<close>
  whose handler raises \<open>ValueError\<close>; the flag is assigned after both have returned.
  The device is chosen and the model moved outside the \<^verbatim>\<open>try\<close>.
\<close>

definition select_device :: "ext \<Rightarrow> device" where
  "select_device x =
     (if cuda_is_available x then Cuda0
      else if mps_is_available x then Mps
      else Cpu)"

definition load_failed :: "string \<Rightarrow> error" where
  "load_failed e = ValueError (''Failed to load model or tokenizer. Error: '' @ e)"

definition setup_local_model ::
  "ext \<Rightarrow> string \<Rightarrow> adapter \<Rightarrow> world \<Rightarrow> (error + unit) \<times> adapter \<times> world" where
  "setup_local_model x name a w =
     (if \<not> libs_importable x then (Inl ModuleNotFoundError, a, w)
      else
        let w1 = log_event (LoadModel name) w in
        case AutoModel_from_pretrained x name of
          Inl e \<Rightarrow> (Inl (load_failed e), a, w1)
        | Inr m \<Rightarrow>
            let a1 = a\<lparr>local_embed_model := Some m\<rparr>;
                w2 = log_event (LoadTokenizer name) w1 in
            case AutoTokenizer_from_pretrained x name of
              Inl e \<Rightarrow> (Inl (load_failed e), a1, w2)
            | Inr t \<Rightarrow>
                let a2 = a1\<lparr>local_tokenizer := Some t, use_local_model := True\<rparr>;
                    d = select_device x;
                    a3 = a2\<lparr>device := Some d\<rparr>;
                    w3 = log_event (MoveToDevice d) w2 in
                case to_device x m d of
                  Some e \<Rightarrow> (Inl (InferenceError e), a3, w3)
                | None \<Rightarrow>
                    (Inr (), a3\<lparr>local_embed_model := Some (m\<lparr>placed_on := Some d\<rparr>)\<rparr>, w3))"

text \<open>
  \<^verbatim>\<open>os.environ["OPENAI_API_KEY"] = value\<close>, line 91. The assignment hands the value
  to the operating system, which cannot hold a NUL character in it: for such a value
  Python raises \<^verbatim>\<open>ValueError("embedded null byte")\<close> and writes nothing.
\<close>

definition environ_set :: "string \<Rightarrow> world \<Rightarrow> (error + unit) \<times> world" where
  "environ_set v w =
     (if CHR 0x00 \<in> set v then (Inl (ValueError ''embedded null byte''), w)
      else (Inr (), w\<lparr>environ := (environ w)(''OPENAI_API_KEY'' \<mapsto> v)\<rparr>))"

text \<open>
  \<^verbatim>\<open>__init__\<close>, lines 66 to 91, as a method on the object under construction:
  \<open>a\<close> is the fresh object, whose attributes are not yet assigned. The arguments are
  \<^verbatim>\<open>client, table, database, metadata_columns, vector_column, k, openai_api_key,
  openai_model, local_embed_model\<close>, in this order.
\<close>

definition init ::
  "ext \<Rightarrow> client_handle \<Rightarrow> string \<Rightarrow> string \<Rightarrow> string list \<Rightarrow> string \<Rightarrow> int \<Rightarrow>
   string option \<Rightarrow> string option \<Rightarrow> string option \<Rightarrow>
   adapter \<Rightarrow> world \<Rightarrow> (error + unit) \<times> adapter \<times> world" where
  "init x cl tb db mc vc kk key om lm a w =
     (let a1 = a\<lparr>client := cl, database := db, table := tb\<rparr> in
      if mc = [] then (Inl (ValueError ''metadata_columns is required''), a1, w)
      else
        let a2 = a1\<lparr>metadata_columns := mc, vector_column := vc, k := kk,
                    openai_api_key := key, model := om, use_local_model := False\<rparr> in
        case (if truthy lm then lm else None) of
          Some name \<Rightarrow> setup_local_model x name a2 w
        | None \<Rightarrow>
            (case (if truthy key then key else None) of
               Some s \<Rightarrow> (case environ_set s w of (r, w1) \<Rightarrow> (r, a2, w1))
             | None \<Rightarrow> (Inr (), a2, w)))"

subsection \<open>Embedding provider\<close>

text \<open>
  \<^verbatim>\<open>_get_embeddings_from_openai\<close>, lines 155 to 169: one call of the endpoint with
  the whole batch, and the value returned is \<^verbatim>\<open>response.data[0].embedding\<close>. The
  leading underscore of the three private methods is written \<open>priv_\<close>.
\<close>

definition priv_get_embeddings_from_openai ::
  "ext \<Rightarrow> string list \<Rightarrow> adapter \<Rightarrow> world \<Rightarrow> (error + pyval) \<times> adapter \<times> world" where
  "priv_get_embeddings_from_openai x queries a w =
     (let w1 = log_event (OpenAICreate (model a) queries) w in
      case embeddings_create x (model a) queries of
        Inl e \<Rightarrow> (Inl (ProviderError e), a, w1)
      | Inr data \<Rightarrow> (first_item data, a, w1))"

text \<open>
  \<^verbatim>\<open>_get_embedding_from_local_model\<close>, lines 171 to 189. Its parameter is annotated
  \<^verbatim>\<open>str\<close>, and its only caller passes the list of queries, which is what the
  tokenizer receives. \<^verbatim>\<open>.eval()\<close> clears the training flag of the model that
  \<^verbatim>\<open>self\<close> holds; the value returned is element 0 of the pooled vectors. The
  tokenizer call, the move of its output to the device, the forward pass and the pooling
  are one external step, \<open>local_encode\<close>, taken once the three attributes have been read.
\<close>

definition priv_get_embedding_from_local_model ::
  "ext \<Rightarrow> string list \<Rightarrow> adapter \<Rightarrow> world \<Rightarrow> (error + pyval) \<times> adapter \<times> world" where
  "priv_get_embedding_from_local_model x query a w =
     (case local_embed_model a of
        None \<Rightarrow> (Inl (AttributeError ''_local_embed_model''), a, w)
      | Some m \<Rightarrow>
          let m1 = m\<lparr>training := False\<rparr>;
              a1 = a\<lparr>local_embed_model := Some m1\<rparr> in
          case local_tokenizer a1 of
            None \<Rightarrow> (Inl (AttributeError ''_local_tokenizer''), a1, w)
          | Some t \<Rightarrow>
              (case device a1 of
                 None \<Rightarrow> (Inl (AttributeError ''device''), a1, w)
               | Some d \<Rightarrow>
                   let w1 = log_event (LocalEncode query) w in
                   case local_encode x t m1 d query of
                     Inl e \<Rightarrow> (Inl (InferenceError e), a1, w1)
                   | Inr vectors \<Rightarrow> (first_item vectors, a1, w1)))"

text \<open>\<^verbatim>\<open>_get_embeddings\<close>, lines 134 to 153.\<close>

definition no_source :: error where
  "no_source = ValueError ''No valid method for obtaining embeddings is configured.''"

definition priv_get_embeddings ::
  "ext \<Rightarrow> string list \<Rightarrow> adapter \<Rightarrow> world \<Rightarrow> (error + pyval) \<times> adapter \<times> world" where
  "priv_get_embeddings x queries a w =
     (if truthy (openai_api_key a) \<and> truthy (model a)
        then priv_get_embeddings_from_openai x queries a w
      else if use_local_model a
        then priv_get_embedding_from_local_model x queries a w
      else (Inl no_source, a, w))"

text \<open>
  Modelled from the spec: \<^verbatim>\<open>CacheMemory.cache\<close> of \<^verbatim>\<open>dsp.modules.cache_utils\<close>, which
  is not among the sources. The spec describes a memoizing cache keyed by the input
  batch: an identical batch returns the result computed before, without recomputing.
  A call that raises stores nothing.
\<close>

definition cached ::
  "(string list \<Rightarrow> adapter \<Rightarrow> world \<Rightarrow> (error + pyval) \<times> adapter \<times> world) \<Rightarrow>
   string list \<Rightarrow> adapter \<Rightarrow> world \<Rightarrow> (error + pyval) \<times> adapter \<times> world" where
  "cached f queries a w =
     (case cache w queries of
        Some v \<Rightarrow> (Inr v, a, w)
      | None \<Rightarrow>
          (case f queries a w of
             (Inl e, a1, w1) \<Rightarrow> (Inl e, a1, w1)
           | (Inr v, a1, w1) \<Rightarrow> (Inr v, a1, w1\<lparr>cache := (cache w1)(queries \<mapsto> v)\<rparr>)))"

text \<open>\<^verbatim>\<open>get_embeddings\<close>, lines 128 to 132. The call itself is recorded in the trace.\<close>

definition get_embeddings ::
  "ext \<Rightarrow> string list \<Rightarrow> adapter \<Rightarrow> world \<Rightarrow> (error + pyval) \<times> adapter \<times> world" where
  "get_embeddings x queries a w =
     (let w0 = log_event (GetEmbeddings queries) w in
      if cache_turn_on x then cached (priv_get_embeddings x) queries a w0
      else priv_get_embeddings x queries a w0)"

subsection \<open>Retrieval\<close>

text \<open>
  The list comprehension of line 221: one \<^verbatim>\<open>"column: value"\<close> string for each
  configured column, in the order of the list.
\<close>

fun row_strings :: "ext \<Rightarrow> row \<Rightarrow> string list \<Rightarrow> error + string list" where
  "row_strings x r [] = Inr []"
| "row_strings x r (c # cs) =
     (case row_get r c of
        Inl e \<Rightarrow> Inl e
      | Inr v \<Rightarrow>
          (case row_strings x r cs of
             Inl e \<Rightarrow> Inl e
           | Inr ss \<Rightarrow> Inr ((c @ '': '' @ py_format x v) # ss)))"

text \<open>The body of the loop, lines 218 to 223: the passage of one row.\<close>

definition format_row :: "ext \<Rightarrow> string list \<Rightarrow> row \<Rightarrow> error + pyval" where
  "format_row x cols r =
     (if length cols = 1 then row_get r (cols ! 0)
      else
        case row_strings x r cols of
          Inl e \<Rightarrow> Inl e
        | Inr ss \<Rightarrow> Inr (PStr (py_join newline ss)))"

text \<open>The loop of lines 216 to 223; \<open>results\<close> is the list it appends to.\<close>

fun collect_results :: "ext \<Rightarrow> string list \<Rightarrow> row list \<Rightarrow> pyval list \<Rightarrow> error + pyval list" where
  "collect_results x cols [] results = Inr results"
| "collect_results x cols (r # rs) results =
     (case format_row x cols r of
        Inl e \<Rightarrow> Inl e
      | Inr p \<Rightarrow> collect_results x cols rs (results @ [p]))"

datatype dotdict = Dotdict (long_text: pyval)

record prediction =
  passages :: "dotdict list"

text \<open>The f-string of lines 210 to 213.\<close>

definition build_query :: "string \<Rightarrow> string \<Rightarrow> string \<Rightarrow> string \<Rightarrow> string \<Rightarrow> string \<Rightarrow> string" where
  "build_query columns_string vc embeddings db tb limit =
     newline @ ''        SELECT '' @ columns_string @ '','' @
     newline @ ''        distance('' @ vc @ '', '' @ embeddings @ '') as dist FROM '' @
       db @ ''.'' @ tb @ '' ORDER BY dist LIMIT '' @ limit @
     newline @ ''        ''"

text \<open>\<^verbatim>\<open>forward\<close>, lines 191 to 225.\<close>

definition query_required :: error where
  "query_required = ValueError ''Query is required''"

definition forward ::
  "ext \<Rightarrow> string option \<Rightarrow> int option \<Rightarrow> adapter \<Rightarrow> world \<Rightarrow>
   (error + prediction) \<times> adapter \<times> world" where
  "forward x user_query k_arg a w =
     (case user_query of
        None \<Rightarrow> (Inl query_required, a, w)
      | Some q \<Rightarrow>
          let limit = (case k_arg of Some n \<Rightarrow> n | None \<Rightarrow> k a) in
          case get_embeddings x [q] a w of
            (Inl e, a1, w1) \<Rightarrow> (Inl e, a1, w1)
          | (Inr embeddings, a1, w1) \<Rightarrow>
              let columns_string = py_join '', '' (metadata_columns a1);
                  sql = build_query columns_string (vector_column a1) (py_format x embeddings)
                          (database a1) (table a1) (py_format x (PInt limit));
                  w2 = log_event (ClientQuery (client a1) sql) w1 in
              case client_query x (client a1) sql of
                Inl e \<Rightarrow> (Inl (DatabaseError e), a1, w2)
              | Inr rows \<Rightarrow>
                  (case collect_results x (metadata_columns a1) rows [] of
                     Inl e \<Rightarrow> (Inl e, a1, w2)
                   | Inr results \<Rightarrow> (Inr \<lparr>passages = map Dotdict results\<rparr>, a1, w2)))"

text \<open>
  The state of the local model agrees with the flag: when \<^verbatim>\<open>use_local_model\<close> is
  true, the model, the tokenizer and the device are there.
\<close>

definition local_state_ok :: "adapter \<Rightarrow> bool" where
  "local_state_ok a =
     (use_local_model a \<longrightarrow>
        local_embed_model a \<noteq> None \<and> local_tokenizer a \<noteq> None \<and> device a \<noteq> None)"

subsection \<open>Concrete configurations\<close>

text \<open>Two rows with the columns \<^verbatim>\<open>title\<close>, \<^verbatim>\<open>text\<close> and \<^verbatim>\<open>year\<close>.\<close>

definition sample_row :: row where
  "sample_row = [''title'' \<mapsto> PStr ''A'', ''text'' \<mapsto> PStr ''alpha'', ''year'' \<mapsto> PInt 1999]"

definition second_row :: row where
  "second_row = [''title'' \<mapsto> PStr ''B'', ''text'' \<mapsto> PStr ''beta'', ''year'' \<mapsto> PInt 2004]"

definition sample_rows :: "row list" where
  "sample_rows = [sample_row, second_row]"

text \<open>
  External systems that answer every call: the endpoint and the local encoder return
  one vector per input string (the length of the string, then a constant), the database
  returns the two rows above, in this order.
\<close>

definition sample_ext :: ext where
  "sample_ext =
     \<lparr>cache_turn_on = False,
      libs_importable = True,
      AutoModel_from_pretrained = (\<lambda>n. Inr \<lparr>model_name = n, training = True, placed_on = None\<rparr>),
      AutoTokenizer_from_pretrained = (\<lambda>n. Inr (Tokenizer n)),
      cuda_is_available = False,
      mps_is_available = False,
      to_device = (\<lambda>m d. None),
      embeddings_create = (\<lambda>m qs. Inr (map (\<lambda>q. PList [PFloat (real (length q)), PFloat 1]) qs)),
      local_encode = (\<lambda>t m d qs. Inr (map (\<lambda>q. PList [PFloat (real (length q)), PFloat 2]) qs)),
      client_query = (\<lambda>c sql. Inr sample_rows),
      py_str = (\<lambda>v. ''<value>'')\<rparr>"

text \<open>The same systems, with a tokenizer that cannot be loaded.\<close>

definition broken_tokenizer_ext :: ext where
  "broken_tokenizer_ext = sample_ext\<lparr>AutoTokenizer_from_pretrained := (\<lambda>n. Inl ''not found'')\<rparr>"

definition empty_world :: world where
  "empty_world = \<lparr>environ = Map.empty, cache = Map.empty, trace = []\<rparr>"

text \<open>An object before \<^verbatim>\<open>__init__\<close> has run.\<close>

definition fresh_adapter :: adapter where
  "fresh_adapter =
     \<lparr>client = 0, database = [], table = [], metadata_columns = [], vector_column = [],
      k = 0, openai_api_key = None, model = None, use_local_model = False,
      local_embed_model = None, local_tokenizer = None, device = None\<rparr>"

text \<open>\<^verbatim>\<open>MyScaleRM(client, "docs")\<close>: every default, no embedding source.\<close>

definition plain_adapter :: adapter where
  "plain_adapter =
     \<lparr>client = 7, database = ''default'', table = ''docs'', metadata_columns = [''text''],
      vector_column = ''vector'', k = 3, openai_api_key = None, model = None,
      use_local_model = False, local_embed_model = None, local_tokenizer = None,
      device = None\<rparr>"

text \<open>An adapter with an OpenAI key and model, and two metadata columns.\<close>

definition remote_adapter :: adapter where
  "remote_adapter =
     plain_adapter\<lparr>metadata_columns := [''title'', ''text''],
                   openai_api_key := Some ''sk'', model := Some ''ada''\<rparr>"

text \<open>An adapter whose local model has been set up on the CPU.\<close>

definition local_adapter :: adapter where
  "local_adapter =
     plain_adapter\<lparr>use_local_model := True,
                   local_embed_model := Some \<lparr>model_name = ''enc'', training = True, placed_on = Some Cpu\<rparr>,
                   local_tokenizer := Some (Tokenizer ''enc''),
                   device := Some Cpu\<rparr>"

text \<open>
  The same systems with a GPU on which the model does not fit: both loads succeed and
  \<^verbatim>\<open>.to(device)\<close> raises.
\<close>

definition failing_device_ext :: ext where
  "failing_device_ext =
     sample_ext\<lparr>cuda_is_available := True, to_device := (\<lambda>m d. Some ''CUDA out of memory'')\<rparr>"

text \<open>An API key that holds a NUL character: \<^verbatim>\<open>"sk\x00"\<close>.\<close>

definition nul_key :: string where
  "nul_key = [CHR ''s'', CHR ''k'', CHR 0x00]"

text \<open>The local model set up and the OpenAI key and model configured as well.\<close>

definition both_adapter :: adapter where
  "both_adapter = local_adapter\<lparr>openai_api_key := Some ''sk'', model := Some ''ada''\<rparr>"

section \<open>Properties\<close>

subsection \<open>What each method leaves alone\<close>

lemma openai_frame:
  "priv_get_embeddings_from_openai x qs a w = (r, a', w') \<Longrightarrow>
     a' = a \<and> trace w' = trace w @ [OpenAICreate (model a) qs] \<and>
     environ w' = environ w \<and> cache w' = cache w"
  by (auto simp: priv_get_embeddings_from_openai_def log_event_def Let_def split: sum.splits)

lemma local_frame:
  "priv_get_embedding_from_local_model x qs a w = (r, a', w') \<Longrightarrow>
     (\<exists>m. a' = a\<lparr>local_embed_model := m\<rparr>) \<and>
     (trace w' = trace w \<or> trace w' = trace w @ [LocalEncode qs])"
  by (auto simp: priv_get_embedding_from_local_model_def log_event_def Let_def
           split: sum.splits option.splits intro: exI[of _ "local_embed_model a"])

lemma priv_frame:
  assumes "priv_get_embeddings x qs a w = (r, a', w')"
  shows "\<exists>m. a' = a\<lparr>local_embed_model := m\<rparr>"
proof (cases "truthy (openai_api_key a) \<and> truthy (model a)")
  case True
  with assms have "priv_get_embeddings_from_openai x qs a w = (r, a', w')"
    by (simp add: priv_get_embeddings_def)
  then have "a' = a\<lparr>local_embed_model := local_embed_model a\<rparr>"
    by (simp add: openai_frame)
  then show ?thesis ..
next
  case False
  show ?thesis
  proof (cases "use_local_model a")
    case True
    with False assms have "priv_get_embedding_from_local_model x qs a w = (r, a', w')"
      by (auto simp: priv_get_embeddings_def)
    then show ?thesis by (simp add: local_frame)
  next
    case no_local: False
    with False assms have "a' = a\<lparr>local_embed_model := local_embed_model a\<rparr>"
      by (auto simp: priv_get_embeddings_def)
    then show ?thesis ..
  qed
qed

lemma get_embeddings_frame:
  "get_embeddings x qs a w = (r, a', w') \<Longrightarrow> \<exists>m. a' = a\<lparr>local_embed_model := m\<rparr>"
  unfolding get_embeddings_def cached_def Let_def
  by (auto split: if_splits option.splits sum.splits prod.splits
           dest: priv_frame intro: exI[of _ "local_embed_model a"])

lemma forward_frame:
  "forward x uq ka a w = (r, a', w') \<Longrightarrow> \<exists>m. a' = a\<lparr>local_embed_model := m\<rparr>"
  unfolding forward_def Let_def
  by (auto split: option.splits sum.splits prod.splits
           dest: get_embeddings_frame intro: exI[of _ "local_embed_model a"])

subsection \<open>Concrete runs\<close>

lemmas run_defs =
  forward_def get_embeddings_def cached_def priv_get_embeddings_def
  priv_get_embeddings_from_openai_def priv_get_embedding_from_local_model_def
  log_event_def truthy_def first_item_def format_row_def row_get_def build_query_def
  py_format_def no_source_def query_required_def Let_def

lemmas sample_defs =
  sample_ext_def broken_tokenizer_ext_def empty_world_def fresh_adapter_def
  plain_adapter_def remote_adapter_def local_adapter_def both_adapter_def
  sample_rows_def sample_row_def second_row_def failing_device_ext_def nul_key_def

lemmas init_defs =
  init_def setup_local_model_def select_device_def load_failed_def environ_set_def

lemma forward_local_run:
  "forward sample_ext (Some ''hi'') None local_adapter empty_world =
     (Inr \<lparr>passages = [Dotdict (PStr ''alpha''), Dotdict (PStr ''beta'')]\<rparr>,
      local_adapter\<lparr>local_embed_model :=
        Some \<lparr>model_name = ''enc'', training = False, placed_on = Some Cpu\<rparr>\<rparr>,
      empty_world\<lparr>trace :=
        [GetEmbeddings [''hi''], LocalEncode [''hi''],
         ClientQuery 7 (build_query ''text'' ''vector'' ''<value>'' ''default'' ''docs'' ''<value>'')]\<rparr>)"
  by (simp add: run_defs sample_defs)

subsection \<open>The missing query\<close>

text \<open>
  Claim C5. \<^verbatim>\<open>forward\<close> called with no query (\<^verbatim>\<open>None\<close>) raises
  \<^verbatim>\<open>ValueError("Query is required")\<close> and nothing else happens: the adapter and the
  whole process state, the trace of calls included, are returned as they were, so
  neither \<^verbatim>\<open>get_embeddings\<close> nor \<^verbatim>\<open>client.query\<close> has been called. This holds for
  every configuration, every \<^verbatim>\<open>k\<close> and every behaviour of the external systems.
\<close>

theorem forward_without_query:
  "forward x None k_arg a w = (Inl (ValueError ''Query is required''), a, w)"
  by (simp add: forward_def query_required_def)

subsection \<open>Configuration is not written by retrieval\<close>

text \<open>
  Claim C7. Whatever \<^verbatim>\<open>forward\<close> is called with and whether it returns a prediction
  or raises, the nine configuration attributes that \<^verbatim>\<open>__init__\<close> assigned
  (\<^verbatim>\<open>client, database, table, metadata_columns, vector_column, k, openai_api_key,
  model, use_local_model\<close>) have the same values afterwards. The only attribute
  \<^verbatim>\<open>forward\<close> can change is the local model, whose training flag \<^verbatim>\<open>.eval()\<close> clears.
\<close>

theorem forward_keeps_configuration:
  assumes "forward x user_query k_arg a w = (r, a', w')"
  shows "client a' = client a \<and> database a' = database a \<and> table a' = table a \<and>
         metadata_columns a' = metadata_columns a \<and> vector_column a' = vector_column a \<and>
         k a' = k a \<and> openai_api_key a' = openai_api_key a \<and> model a' = model a \<and>
         use_local_model a' = use_local_model a"
proof -
  from assms obtain m where "a' = a\<lparr>local_embed_model := m\<rparr>"
    using forward_frame by blast
  then show ?thesis by simp
qed

text \<open>
  A run on the local path: the adapter that comes back differs from the one that went
  in (the model is now in evaluation mode), and its configuration is the same.
\<close>

theorem forward_keeps_configuration_witness:
  "\<exists>r a' w'. forward sample_ext (Some ''hi'') None local_adapter empty_world = (r, a', w') \<and>
     a' \<noteq> local_adapter \<and>
     client a' = client local_adapter \<and> database a' = database local_adapter \<and>
     table a' = table local_adapter \<and>
     metadata_columns a' = metadata_columns local_adapter \<and>
     vector_column a' = vector_column local_adapter \<and> k a' = k local_adapter \<and>
     openai_api_key a' = openai_api_key local_adapter \<and> model a' = model local_adapter \<and>
     use_local_model a' = use_local_model local_adapter"
  using forward_keeps_configuration [OF forward_local_run] forward_local_run
  by (simp add: sample_defs)

subsection \<open>Routing of the embedding request\<close>

lemma openai_result:
  "fst (priv_get_embeddings_from_openai x qs a w) \<noteq> Inl (ValueError s)"
  by (auto simp: priv_get_embeddings_from_openai_def first_item_def Let_def
           split: sum.splits list.splits)

lemma local_result:
  "fst (priv_get_embedding_from_local_model x qs a w) \<noteq> Inl (ValueError s)"
  by (auto simp: priv_get_embedding_from_local_model_def first_item_def Let_def
           split: sum.splits list.splits option.splits)

lemma openai_trace:
  "trace (snd (snd (priv_get_embeddings_from_openai x qs a w))) =
     trace w @ [OpenAICreate (model a) qs]"
  by (cases "priv_get_embeddings_from_openai x qs a w") (simp add: openai_frame)

lemma local_trace:
  "trace (snd (snd (priv_get_embedding_from_local_model x qs a w))) = trace w \<or>
   trace (snd (snd (priv_get_embedding_from_local_model x qs a w))) = trace w @ [LocalEncode qs]"
  by (cases "priv_get_embedding_from_local_model x qs a w") (use local_frame in fastforce)

lemma local_trace_loaded:
  "local_embed_model a = Some m \<Longrightarrow> local_tokenizer a = Some t \<Longrightarrow> device a = Some d \<Longrightarrow>
   trace (snd (snd (priv_get_embedding_from_local_model x qs a w))) = trace w @ [LocalEncode qs]"
  by (auto simp: priv_get_embedding_from_local_model_def log_event_def Let_def split: sum.splits)

text \<open>
  Claim C2. \<^verbatim>\<open>_get_embeddings\<close> routes on the configuration alone, for every batch
  and every state. An API key or model name is set when it is true in Python's sense:
  not \<^verbatim>\<open>None\<close> and not the empty string (\<open>truthy\<close>). A local model has been loaded
  when \<^verbatim>\<open>use_local_model\<close> is true.
  \<^item> Key and model name both set: the call is the call of the remote client, and the one
    call it adds to the trace is \<^verbatim>\<open>openai.embeddings.create\<close>, whether or not a local
    model is loaded as well.
  \<^item> Otherwise, local model loaded: the call is the call of the local embedding function;
    the only call it can add to the trace is the local encoder's, and it adds it when
    model, tokenizer and device are present.
  \<^item> Otherwise: \<^verbatim>\<open>ValueError("No valid method for obtaining embeddings is configured.")\<close>,
    with the adapter and the process state untouched.
  \<^item> That error is raised in exactly the third case.
\<close>

theorem priv_get_embeddings_routing:
  "(truthy (openai_api_key a) \<and> truthy (model a) \<longrightarrow>
      priv_get_embeddings x qs a w = priv_get_embeddings_from_openai x qs a w \<and>
      trace (snd (snd (priv_get_embeddings x qs a w))) = trace w @ [OpenAICreate (model a) qs]) \<and>
   (\<not> (truthy (openai_api_key a) \<and> truthy (model a)) \<and> use_local_model a \<longrightarrow>
      priv_get_embeddings x qs a w = priv_get_embedding_from_local_model x qs a w \<and>
      (trace (snd (snd (priv_get_embeddings x qs a w))) = trace w \<or>
       trace (snd (snd (priv_get_embeddings x qs a w))) = trace w @ [LocalEncode qs]) \<and>
      (local_embed_model a \<noteq> None \<and> local_tokenizer a \<noteq> None \<and> device a \<noteq> None \<longrightarrow>
       trace (snd (snd (priv_get_embeddings x qs a w))) = trace w @ [LocalEncode qs])) \<and>
   (\<not> (truthy (openai_api_key a) \<and> truthy (model a)) \<and> \<not> use_local_model a \<longrightarrow>
      priv_get_embeddings x qs a w =
        (Inl (ValueError ''No valid method for obtaining embeddings is configured.''), a, w)) \<and>
   (fst (priv_get_embeddings x qs a w) =
        Inl (ValueError ''No valid method for obtaining embeddings is configured.'') \<longleftrightarrow>
      \<not> (truthy (openai_api_key a) \<and> truthy (model a)) \<and> \<not> use_local_model a)"
proof (cases "truthy (openai_api_key a) \<and> truthy (model a)")
  case True
  then have eq: "priv_get_embeddings x qs a w = priv_get_embeddings_from_openai x qs a w"
    by (simp add: priv_get_embeddings_def)
  show ?thesis using True by (simp add: eq openai_trace openai_result)
next
  case False
  show ?thesis
  proof (cases "use_local_model a")
    case True
    with False have eq: "priv_get_embeddings x qs a w = priv_get_embedding_from_local_model x qs a w"
      by (auto simp: priv_get_embeddings_def)
    show ?thesis using False True local_trace[of x qs a w]
      by (auto simp: eq local_result local_trace_loaded)
  next
    case no_local: False
    with False have "priv_get_embeddings x qs a w = (Inl no_source, a, w)"
      by (auto simp: priv_get_embeddings_def)
    then show ?thesis using False no_local by (auto simp: no_source_def)
  qed
qed

text \<open>
  Three adapters, one per case. The first has the key, the model name and a loaded local
  model: the remote client is called, the local encoder is not.
\<close>

theorem priv_get_embeddings_routing_witness:
  "truthy (openai_api_key both_adapter) \<and> truthy (model both_adapter) \<and>
   use_local_model both_adapter \<and>
   priv_get_embeddings sample_ext [''hi''] both_adapter empty_world =
     (Inr (PList [PFloat 2, PFloat 1]), both_adapter,
      empty_world\<lparr>trace := [OpenAICreate (Some ''ada'') [''hi'']]\<rparr>) \<and>
   \<not> truthy (openai_api_key local_adapter) \<and> use_local_model local_adapter \<and>
   fst (priv_get_embeddings sample_ext [''hi''] local_adapter empty_world) =
     Inr (PList [PFloat 2, PFloat 2]) \<and>
   trace (snd (snd (priv_get_embeddings sample_ext [''hi''] local_adapter empty_world))) =
     [LocalEncode [''hi'']] \<and>
   \<not> truthy (openai_api_key plain_adapter) \<and> \<not> use_local_model plain_adapter \<and>
   priv_get_embeddings sample_ext [''hi''] plain_adapter empty_world =
     (Inl (ValueError ''No valid method for obtaining embeddings is configured.''),
      plain_adapter, empty_world)"
  using priv_get_embeddings_routing [of both_adapter sample_ext "[''hi'']" empty_world]
        priv_get_embeddings_routing [of local_adapter sample_ext "[''hi'']" empty_world]
        priv_get_embeddings_routing [of plain_adapter sample_ext "[''hi'']" empty_world]
  by (simp add: run_defs sample_defs)

subsection \<open>The passage of one row\<close>

lemma row_strings_present:
  "map r cols = map Some vals \<Longrightarrow>
   row_strings x r cols = Inr (map2 (\<lambda>c v. c @ '': '' @ py_format x v) cols vals)"
proof (induction cols arbitrary: vals)
  case Nil
  then show ?case by simp
next
  case (Cons c cs)
  then obtain v vs where "vals = v # vs" by (cases vals) auto
  with Cons show ?case by (simp add: row_get_def)
qed

text \<open>
  Claim C3. For a row that holds the configured columns:
  \<^item> one configured column \<open>c\<close>: the passage is the value stored under \<open>c\<close>, as it is
    (no conversion to a string);
  \<^item> two or more configured columns \<open>cols\<close>, with values \<open>vals\<close> in the same order: the
    passage is the string that joins with newlines the lines \<^verbatim>\<open>column: value\<close>, one
    for each configured column, in the configured order, where a value that is a string
    is inserted as it is and any other value through \<^verbatim>\<open>str\<close>;
  \<^item> for the two columns \<open>[a, b]\<close> this is \<^verbatim>\<open>"a: <val_a>\nb: <val_b>"\<close>.
\<close>

theorem format_row_passage:
  "(r c = Some v \<longrightarrow> format_row x [c] r = Inr v) \<and>
   (2 \<le> length cols \<and> map r cols = map Some vals \<longrightarrow>
      format_row x cols r =
        Inr (PStr (py_join newline (map2 (\<lambda>c v. c @ '': '' @ py_format x v) cols vals)))) \<and>
   (r a = Some va \<and> r b = Some vb \<longrightarrow>
      format_row x [a, b] r =
        Inr (PStr (a @ '': '' @ py_format x va @ newline @ b @ '': '' @ py_format x vb)))"
proof (intro conjI impI)
  assume "r c = Some v"
  then show "format_row x [c] r = Inr v" by (simp add: format_row_def row_get_def)
next
  assume h: "2 \<le> length cols \<and> map r cols = map Some vals"
  then have "length cols \<noteq> 1" by simp
  with h show "format_row x cols r =
        Inr (PStr (py_join newline (map2 (\<lambda>c v. c @ '': '' @ py_format x v) cols vals)))"
    by (simp add: format_row_def row_strings_present)
next
  assume "r a = Some va \<and> r b = Some vb"
  then show "format_row x [a, b] r =
        Inr (PStr (a @ '': '' @ py_format x va @ newline @ b @ '': '' @ py_format x vb))"
    by (simp add: format_row_def row_get_def)
qed

text \<open>
  On the first sample row: a single integer column comes back as the integer; three
  columns, and two columns, give the block of lines.
\<close>

theorem format_row_passage_witness:
  "sample_row ''year'' = Some (PInt 1999) \<and>
   format_row sample_ext [''year''] sample_row = Inr (PInt 1999) \<and>
   map sample_row [''title'', ''text'', ''year''] =
     map Some [PStr ''A'', PStr ''alpha'', PInt 1999] \<and>
   format_row sample_ext [''title'', ''text'', ''year''] sample_row =
     Inr (PStr (''title: A'' @ newline @ ''text: alpha'' @ newline @ ''year: <value>'')) \<and>
   format_row sample_ext [''title'', ''text''] sample_row =
     Inr (PStr (''title: A'' @ newline @ ''text: alpha''))"
  using format_row_passage [where r = sample_row and c = "''year''" and v = "PInt 1999"
          and cols = "[''title'', ''text'', ''year'']"
          and vals = "[PStr ''A'', PStr ''alpha'', PInt 1999]" and x = sample_ext
          and a = "''title''" and va = "PStr ''A''" and b = "''text''" and vb = "PStr ''alpha''"]
  by (simp add: sample_row_def sample_ext_def py_format_def)

subsection \<open>One passage per row, in the order of the rows\<close>

lemma format_row_total:
  assumes "\<forall>c\<in>set cols. r c \<noteq> None"
  shows "\<exists>v. format_row x cols r = Inr v"
proof (cases "length cols = 1")
  case True
  then obtain c where "cols = [c]" by (cases cols) auto
  with assms show ?thesis by (auto simp: format_row_def row_get_def)
next
  case False
  from assms have "map r cols = map Some (map (\<lambda>c. the (r c)) cols)" by auto
  from row_strings_present[OF this] show ?thesis using False by (simp add: format_row_def)
qed

lemma collect_results_sound:
  "collect_results x cols rows acc = Inr ps \<Longrightarrow>
   \<exists>ps'. ps = acc @ ps' \<and> map (format_row x cols) rows = map Inr ps'"
proof (induction rows arbitrary: acc)
  case Nil
  then show ?case by simp
next
  case (Cons r rs)
  then obtain p where p: "format_row x cols r = Inr p"
    and rest: "collect_results x cols rs (acc @ [p]) = Inr ps"
    by (auto split: sum.splits)
  from Cons.IH[OF rest] obtain ps' where "ps = (acc @ [p]) @ ps'"
    and "map (format_row x cols) rs = map Inr ps'" by blast
  with p have "ps = acc @ (p # ps') \<and> map (format_row x cols) (r # rs) = map Inr (p # ps')"
    by simp
  then show ?case by blast
qed

lemma collect_results_complete:
  "map (format_row x cols) rows = map Inr ps' \<Longrightarrow>
   collect_results x cols rows acc = Inr (acc @ ps')"
proof (induction rows arbitrary: acc ps')
  case Nil
  then show ?case by simp
next
  case (Cons r rs)
  then obtain p qs where "ps' = p # qs" by (cases ps') auto
  with Cons show ?case by simp
qed

lemma all_rows_format:
  "\<forall>r\<in>set rows. \<exists>v. format_row x cols r = Inr v \<Longrightarrow>
   \<exists>ps'. map (format_row x cols) rows = map Inr ps'"
proof (induction rows)
  case Nil
  then show ?case by simp
next
  case (Cons r rs)
  from Cons.prems obtain v where v: "format_row x cols r = Inr v" by auto
  from Cons.prems have "\<forall>r\<in>set rs. \<exists>v. format_row x cols r = Inr v" by simp
  from Cons.IH[OF this] obtain ps' where "map (format_row x cols) rs = map Inr ps'" ..
  with v have "map (format_row x cols) (r # rs) = map Inr (v # ps')" by simp
  then show ?case ..
qed

lemma collect_results_total:
  assumes "\<forall>r\<in>set rows. \<forall>c\<in>set cols. r c \<noteq> None"
  shows "\<exists>ps. collect_results x cols rows [] = Inr ps"
proof -
  have "\<forall>r\<in>set rows. \<exists>v. format_row x cols r = Inr v"
  proof
    fix r assume "r \<in> set rows"
    with assms have "\<forall>c\<in>set cols. r c \<noteq> None" by simp
    then show "\<exists>v. format_row x cols r = Inr v" by (rule format_row_total)
  qed
  from all_rows_format[OF this] obtain ps'
    where "map (format_row x cols) rows = map Inr ps'" ..
  from collect_results_complete[OF this, of "[]"] show ?thesis by simp
qed

lemma forward_after_query:
  assumes emb: "get_embeddings x [q] a w = (Inr e, a1, w1)"
    and db: "client_query x (client a)
               (build_query (py_join '', '' (metadata_columns a)) (vector_column a)
                  (py_format x e) (database a) (table a)
                  (py_format x (PInt (case k_arg of Some n \<Rightarrow> n | None \<Rightarrow> k a)))) = Inr rows"
  shows "fst (forward x (Some q) k_arg a w) =
           (case collect_results x (metadata_columns a) rows [] of
              Inl err \<Rightarrow> Inl err
            | Inr results \<Rightarrow> Inr \<lparr>passages = map Dotdict results\<rparr>)"
proof -
  from get_embeddings_frame[OF emb] obtain m where a1: "a1 = a\<lparr>local_embed_model := m\<rparr>" ..
  show ?thesis
    using db by (simp add: forward_def emb a1 Let_def split: sum.splits)
qed

lemma get_embeddings_remote_run:
  "get_embeddings sample_ext [''hi''] remote_adapter empty_world =
     (Inr (PList [PFloat 2, PFloat 1]), remote_adapter,
      empty_world\<lparr>trace := [GetEmbeddings [''hi''], OpenAICreate (Some ''ada'') [''hi'']]\<rparr>)"
  by (simp add: run_defs sample_defs)

lemma client_query_sample: "client_query sample_ext c sql = Inr sample_rows"
  by (simp add: sample_ext_def)

text \<open>
  Claim C4. Let the embedding of the query have been obtained and let \<open>rows\<close> be the
  rows the database client returns for the query string that \<^verbatim>\<open>forward\<close> sends.
  \<^item> If \<^verbatim>\<open>forward\<close> returns a prediction, it has as many passages as there are rows,
    and passage \<open>i\<close> is the formatted row \<open>i\<close>: nothing is reordered, dropped or
    duplicated.
  \<^item> \<^verbatim>\<open>forward\<close> does return a prediction when every row holds every configured
    column, which is what a \<^verbatim>\<open>SELECT\<close> of these columns returns.
  The order of \<open>rows\<close> is the database's (ascending distance, by the \<^verbatim>\<open>ORDER BY\<close>
  of the query); the adapter keeps it.
\<close>

theorem forward_one_passage_per_row:
  assumes emb: "get_embeddings x [q] a w = (Inr e, a1, w1)"
    and db: "client_query x (client a)
               (build_query (py_join '', '' (metadata_columns a)) (vector_column a)
                  (py_format x e) (database a) (table a)
                  (py_format x (PInt (case k_arg of Some n \<Rightarrow> n | None \<Rightarrow> k a)))) = Inr rows"
  shows "(fst (forward x (Some q) k_arg a w) = Inr p \<longrightarrow>
            length (passages p) = length rows \<and>
            (\<forall>i<length rows.
               format_row x (metadata_columns a) (rows ! i) = Inr (long_text (passages p ! i)))) \<and>
         ((\<forall>r\<in>set rows. \<forall>c\<in>set (metadata_columns a). r c \<noteq> None) \<longrightarrow>
            (\<exists>p'. fst (forward x (Some q) k_arg a w) = Inr p'))"
proof (intro conjI impI)
  assume ok: "fst (forward x (Some q) k_arg a w) = Inr p"
  with forward_after_query[OF emb db] obtain results
    where res: "collect_results x (metadata_columns a) rows [] = Inr results"
      and p: "p = \<lparr>passages = map Dotdict results\<rparr>"
    by (auto split: sum.splits)
  from collect_results_sound[OF res]
  have m: "map (format_row x (metadata_columns a)) rows = map Inr results" by simp
  then have len: "length rows = length results" by (metis length_map)
  show "length (passages p) = length rows" by (simp add: p len)
  show "\<forall>i<length rows.
          format_row x (metadata_columns a) (rows ! i) = Inr (long_text (passages p ! i))"
  proof (intro allI impI)
    fix i assume i: "i < length rows"
    then have "map (format_row x (metadata_columns a)) rows ! i = map Inr results ! i"
      using m by simp
    with i len show "format_row x (metadata_columns a) (rows ! i) = Inr (long_text (passages p ! i))"
      by (simp add: p)
  qed
next
  assume "\<forall>r\<in>set rows. \<forall>c\<in>set (metadata_columns a). r c \<noteq> None"
  then obtain ps where "collect_results x (metadata_columns a) rows [] = Inr ps"
    using collect_results_total by blast
  then show "\<exists>p'. fst (forward x (Some q) k_arg a w) = Inr p'"
    by (simp add: forward_after_query[OF emb db])
qed

text \<open>
  The remote adapter on the two sample rows: two passages, the first from the first
  row and the second from the second.
\<close>

theorem forward_one_passage_per_row_witness:
  "fst (get_embeddings sample_ext [''hi''] remote_adapter empty_world) =
     Inr (PList [PFloat 2, PFloat 1]) \<and>
   fst (forward sample_ext (Some ''hi'') None remote_adapter empty_world) =
     Inr \<lparr>passages = [Dotdict (PStr (''title: A'' @ newline @ ''text: alpha'')),
                       Dotdict (PStr (''title: B'' @ newline @ ''text: beta''))]\<rparr> \<and>
   length sample_rows = 2 \<and>
   format_row sample_ext (metadata_columns remote_adapter) (sample_rows ! 0) =
     Inr (PStr (''title: A'' @ newline @ ''text: alpha'')) \<and>
   format_row sample_ext (metadata_columns remote_adapter) (sample_rows ! 1) =
     Inr (PStr (''title: B'' @ newline @ ''text: beta''))"
  using forward_one_passage_per_row [OF get_embeddings_remote_run client_query_sample,
          where k_arg = None
            and p = "\<lparr>passages = [Dotdict (PStr (''title: A'' @ newline @ ''text: alpha'')),
                                  Dotdict (PStr (''title: B'' @ newline @ ''text: beta''))]\<rparr>"]
  by (simp add: run_defs sample_defs)

subsection \<open>Construction\<close>

lemma setup_keeps:
  "setup_local_model x name a w = (r, a', w') \<Longrightarrow>
     client a' = client a \<and> database a' = database a \<and> table a' = table a \<and>
     metadata_columns a' = metadata_columns a \<and> vector_column a' = vector_column a \<and>
     k a' = k a \<and> openai_api_key a' = openai_api_key a \<and> model a' = model a \<and>
     environ w' = environ w \<and> cache w' = cache w"
  by (auto simp: setup_local_model_def log_event_def Let_def
           split: if_splits sum.splits option.splits)

lemma setup_flag:
  "setup_local_model x name a w = (r, a', w') \<Longrightarrow>
     (r = Inl ModuleNotFoundError \<or> (\<exists>e. r = Inl (load_failed e)) \<longrightarrow>
        use_local_model a' = use_local_model a) \<and>
     (r = Inr () \<longrightarrow> use_local_model a')"
  by (auto simp: setup_local_model_def log_event_def Let_def load_failed_def
           split: if_splits sum.splits option.splits)

lemma setup_loaded:
  "setup_local_model x name a w = (r, a', w') \<Longrightarrow> \<not> use_local_model a \<Longrightarrow>
   use_local_model a' \<Longrightarrow>
     libs_importable x \<and>
     (\<exists>m t. AutoModel_from_pretrained x name = Inr m \<and>
            AutoTokenizer_from_pretrained x name = Inr t \<and>
            local_tokenizer a' = Some t \<and>
            (local_embed_model a' = Some m \<or>
             local_embed_model a' = Some (m\<lparr>placed_on := Some (select_device x)\<rparr>)) \<and>
            device a' = Some (select_device x))"
  by (auto simp: setup_local_model_def log_event_def Let_def
           split: if_splits sum.splits option.splits)

lemma init_empty:
  "init x cl tb db [] vc kk key om lm a w =
     (Inl (ValueError ''metadata_columns is required''),
      a\<lparr>client := cl, database := db, table := tb\<rparr>, w)"
  by (simp add: init_def)

lemma init_nonempty:
  assumes "mc \<noteq> []"
  shows "init x cl tb db mc vc kk key om lm a w =
     (let a2 = a\<lparr>client := cl, database := db, table := tb, metadata_columns := mc,
                  vector_column := vc, k := kk, openai_api_key := key, model := om,
                  use_local_model := False\<rparr> in
      if truthy lm then setup_local_model x (the lm) a2 w
      else if truthy key
        then (fst (environ_set (the key) w), a2, snd (environ_set (the key) w))
      else (Inr (), a2, w))"
  using assms by (auto simp: init_def Let_def truthy_def split: option.splits prod.splits)

lemma init_via_setup:
  assumes "mc \<noteq> []" "truthy lm"
    and "init x cl tb db mc vc kk key om lm a w = (r, a', w')"
  shows "\<exists>a2 name. lm = Some name \<and> \<not> use_local_model a2 \<and>
           openai_api_key a2 = key \<and> model a2 = om \<and>
           setup_local_model x name a2 w = (r, a', w')"
proof -
  from assms(2) obtain name where lm: "lm = Some name"
    by (auto simp: truthy_def split: option.splits)
  let ?a2 = "a\<lparr>client := cl, database := db, table := tb, metadata_columns := mc,
                vector_column := vc, k := kk, openai_api_key := key, model := om,
                use_local_model := False\<rparr>"
  from assms lm have "setup_local_model x name ?a2 w = (r, a', w')"
    by (simp add: init_nonempty Let_def)
  moreover have "\<not> use_local_model ?a2" "openai_api_key ?a2 = key" "model ?a2 = om" by simp_all
  ultimately show ?thesis using lm by blast
qed

lemma init_no_local:
  assumes "mc \<noteq> []" "\<not> truthy lm"
    and "init x cl tb db mc vc kk key om lm a w = (r, a', w')"
  shows "\<not> use_local_model a' \<and> openai_api_key a' = key \<and> model a' = om \<and>
         r \<noteq> Inl ModuleNotFoundError \<and> (\<forall>e. r \<noteq> Inl (load_failed e))"
  using assms
  by (auto simp: init_nonempty Let_def environ_set_def load_failed_def split: if_splits)

lemma init_remote_run:
  "init sample_ext 7 ''docs'' ''default'' [''title'', ''text''] ''vector'' 3
        (Some ''sk'') (Some ''ada'') None fresh_adapter empty_world =
     (Inr (), remote_adapter, empty_world\<lparr>environ := [''OPENAI_API_KEY'' \<mapsto> ''sk'']\<rparr>)"
  by (simp add: init_defs run_defs sample_defs)

lemma init_local_run:
  "init sample_ext 7 ''docs'' ''default'' [''text''] ''vector'' 3
        (Some ''sk'') (Some ''ada'') (Some ''enc'') fresh_adapter empty_world =
     (Inr (), both_adapter,
      empty_world\<lparr>trace := [LoadModel ''enc'', LoadTokenizer ''enc'', MoveToDevice Cpu]\<rparr>)"
  by (simp add: init_defs run_defs sample_defs)

lemma init_broken_run:
  "init broken_tokenizer_ext 7 ''docs'' ''default'' [''text''] ''vector'' 3
        None None (Some ''enc'') fresh_adapter empty_world =
     (Inl (load_failed ''not found''),
      plain_adapter\<lparr>local_embed_model :=
        Some \<lparr>model_name = ''enc'', training = True, placed_on = None\<rparr>\<rparr>,
      empty_world\<lparr>trace := [LoadModel ''enc'', LoadTokenizer ''enc'']\<rparr>)"
  by (simp add: init_defs run_defs sample_defs)

lemma setup_local_run:
  "setup_local_model sample_ext ''enc'' plain_adapter empty_world =
     (Inr (), local_adapter,
      empty_world\<lparr>trace := [LoadModel ''enc'', LoadTokenizer ''enc'', MoveToDevice Cpu]\<rparr>)"
  by (simp add: init_defs run_defs sample_defs)

lemma setup_broken_run:
  "setup_local_model broken_tokenizer_ext ''enc'' plain_adapter empty_world =
     (Inl (load_failed ''not found''),
      plain_adapter\<lparr>local_embed_model :=
        Some \<lparr>model_name = ''enc'', training = True, placed_on = None\<rparr>\<rparr>,
      empty_world\<lparr>trace := [LoadModel ''enc'', LoadTokenizer ''enc'']\<rparr>)"
  by (simp add: init_defs run_defs sample_defs)

text \<open>
  Claim C6. \<^verbatim>\<open>__init__\<close> with an empty \<^verbatim>\<open>metadata_columns\<close> raises
  \<^verbatim>\<open>ValueError("metadata_columns is required")\<close>; by then it has assigned
  \<^verbatim>\<open>client\<close>, \<^verbatim>\<open>database\<close> and \<^verbatim>\<open>table\<close> and nothing else, and the process
  state is as it was: no model has been loaded, no environment variable written, no
  call made. With a non-empty list, the attribute \<^verbatim>\<open>metadata_columns\<close> holds that
  list, unchanged, when \<^verbatim>\<open>__init__\<close> ends (also when the set-up of a local model
  raises afterwards), and the error above is not raised.
\<close>

theorem init_metadata_columns:
  "init x cl tb db [] vc kk key om lm a w =
     (Inl (ValueError ''metadata_columns is required''),
      a\<lparr>client := cl, database := db, table := tb\<rparr>, w) \<and>
   (mc \<noteq> [] \<longrightarrow>
      metadata_columns (fst (snd (init x cl tb db mc vc kk key om lm a w))) = mc \<and>
      fst (init x cl tb db mc vc kk key om lm a w) \<noteq>
        Inl (ValueError ''metadata_columns is required''))"
proof (intro conjI impI)
  show "init x cl tb db [] vc kk key om lm a w =
     (Inl (ValueError ''metadata_columns is required''),
      a\<lparr>client := cl, database := db, table := tb\<rparr>, w)"
    by (rule init_empty)
next
  assume mc: "mc \<noteq> []"
  obtain r a' w' where res: "init x cl tb db mc vc kk key om lm a w = (r, a', w')"
    by (cases "init x cl tb db mc vc kk key om lm a w") auto
  show "metadata_columns (fst (snd (init x cl tb db mc vc kk key om lm a w))) = mc"
  proof (cases "truthy lm")
    case True
    with res mc have "setup_local_model x (the lm)
        (a\<lparr>client := cl, database := db, table := tb, metadata_columns := mc,
           vector_column := vc, k := kk, openai_api_key := key, model := om,
           use_local_model := False\<rparr>) w = (r, a', w')"
      by (simp add: init_nonempty Let_def)
    from setup_keeps[OF this] show ?thesis by (simp add: res)
  next
    case False
    with mc show ?thesis by (simp add: init_nonempty Let_def environ_set_def)
  qed
  show "fst (init x cl tb db mc vc kk key om lm a w) \<noteq>
        Inl (ValueError ''metadata_columns is required'')"
  proof (cases "truthy lm")
    case True
    with res mc have s: "setup_local_model x (the lm)
        (a\<lparr>client := cl, database := db, table := tb, metadata_columns := mc,
           vector_column := vc, k := kk, openai_api_key := key, model := om,
           use_local_model := False\<rparr>) w = (r, a', w')"
      by (simp add: init_nonempty Let_def)
    then have "r \<noteq> Inl (ValueError ''metadata_columns is required'')"
      by (auto simp: setup_local_model_def Let_def load_failed_def
               split: if_splits sum.splits option.splits)
    then show ?thesis by (simp add: res)
  next
    case False
    with mc show ?thesis by (simp add: init_nonempty Let_def environ_set_def)
  qed
qed

text \<open>
  Two columns are stored when construction succeeds, and one column is stored when the
  tokenizer cannot be loaded and construction raises.
\<close>

theorem init_metadata_columns_witness:
  "[''title'', ''text''] \<noteq> ([] :: string list) \<and>
   fst (init sample_ext 7 ''docs'' ''default'' [''title'', ''text'']
      ''vector'' 3 (Some ''sk'') (Some ''ada'') None fresh_adapter empty_world) = Inr () \<and>
   metadata_columns (fst (snd (init sample_ext 7 ''docs'' ''default'' [''title'', ''text'']
      ''vector'' 3 (Some ''sk'') (Some ''ada'') None fresh_adapter empty_world))) =
     [''title'', ''text''] \<and>
   fst (init broken_tokenizer_ext 7 ''docs'' ''default'' [''text''] ''vector'' 3
      None None (Some ''enc'') fresh_adapter empty_world) = Inl (load_failed ''not found'') \<and>
   metadata_columns (fst (snd (init broken_tokenizer_ext 7 ''docs'' ''default'' [''text'']
      ''vector'' 3 None None (Some ''enc'') fresh_adapter empty_world))) = [''text'']"
  using init_metadata_columns [where mc = "[''title'', ''text'']" and x = sample_ext and cl = 7
          and tb = "''docs''" and db = "''default''" and vc = "''vector''" and kk = 3
          and key = "Some ''sk''" and om = "Some ''ada''" and lm = None
          and a = fresh_adapter and w = empty_world]
        init_metadata_columns [where mc = "[''text'']" and x = broken_tokenizer_ext and cl = 7
          and tb = "''docs''" and db = "''default''" and vc = "''vector''" and kk = 3
          and key = None and om = None and lm = "Some ''enc''"
          and a = fresh_adapter and w = empty_world]
  by (simp add: init_remote_run init_broken_run)

lemma setup_flag_iff:
  "setup_local_model x name a w = (r, a', w') \<Longrightarrow> \<not> use_local_model a \<Longrightarrow>
     (use_local_model a' \<longleftrightarrow> r = Inr () \<or> (\<exists>e. r = Inl (InferenceError e)))"
  by (auto simp: setup_local_model_def log_event_def Let_def load_failed_def
           split: if_splits sum.splits option.splits)

lemma setup_failing_device_run:
  "setup_local_model failing_device_ext ''enc'' plain_adapter empty_world =
     (Inl (InferenceError ''CUDA out of memory''),
      plain_adapter\<lparr>use_local_model := True,
        local_embed_model := Some \<lparr>model_name = ''enc'', training = True, placed_on = None\<rparr>,
        local_tokenizer := Some (Tokenizer ''enc''),
        device := Some Cuda0\<rparr>,
      empty_world\<lparr>trace := [LoadModel ''enc'', LoadTokenizer ''enc'', MoveToDevice Cuda0]\<rparr>)"
  by (simp add: init_defs run_defs sample_defs)

lemma local_model_present:
  "priv_get_embedding_from_local_model x qs a w = (r, a', w') \<Longrightarrow>
     (local_embed_model a' = None \<longleftrightarrow> local_embed_model a = None)"
  by (auto simp: priv_get_embedding_from_local_model_def Let_def
           split: sum.splits option.splits)

lemma priv_model_present:
  assumes "priv_get_embeddings x qs a w = (r, a', w')"
  shows "local_embed_model a' = None \<longleftrightarrow> local_embed_model a = None"
proof (cases "truthy (openai_api_key a) \<and> truthy (model a)")
  case True
  with assms have "priv_get_embeddings_from_openai x qs a w = (r, a', w')"
    by (simp add: priv_get_embeddings_def)
  from openai_frame[OF this] show ?thesis by simp
next
  case False
  show ?thesis
  proof (cases "use_local_model a")
    case True
    with False assms have "priv_get_embedding_from_local_model x qs a w = (r, a', w')"
      by (auto simp: priv_get_embeddings_def)
    then show ?thesis by (rule local_model_present)
  next
    case no_local: False
    with False assms show ?thesis by (auto simp: priv_get_embeddings_def)
  qed
qed

lemma get_embeddings_model_present:
  assumes "get_embeddings x qs a w = (r, a', w')"
  shows "local_embed_model a' = None \<longleftrightarrow> local_embed_model a = None"
proof (cases "cache_turn_on x")
  case False
  with assms show ?thesis
    by (auto simp: get_embeddings_def Let_def dest: priv_model_present)
next
  case True
  let ?w0 = "log_event (GetEmbeddings qs) w"
  obtain r2 a2 w2 where p: "priv_get_embeddings x qs a ?w0 = (r2, a2, w2)"
    by (cases "priv_get_embeddings x qs a ?w0") auto
  from True assms p have "a' = a \<or> a' = a2"
    by (auto simp: get_embeddings_def cached_def Let_def split: option.splits sum.splits)
  with priv_model_present[OF p] show ?thesis by auto
qed

lemma forward_model_present:
  assumes "forward x uq ka a w = (r, a', w')"
  shows "local_embed_model a' = None \<longleftrightarrow> local_embed_model a = None"
proof (cases uq)
  case None
  with assms show ?thesis by (simp add: forward_def)
next
  case (Some q)
  obtain r1 a1 w1 where g: "get_embeddings x [q] a w = (r1, a1, w1)"
    by (cases "get_embeddings x [q] a w") auto
  from Some assms g have "a' = a1"
    by (auto simp: forward_def Let_def split: sum.splits)
  with get_embeddings_model_present[OF g] show ?thesis by simp
qed

lemma forward_keeps_local_state:
  assumes "local_state_ok a" and "forward x uq ka a w = (r, a', w')"
  shows "local_state_ok a'"
proof -
  from forward_frame[OF assms(2)] obtain m where "a' = a\<lparr>local_embed_model := m\<rparr>" ..
  then have "use_local_model a' = use_local_model a"
    "local_tokenizer a' = local_tokenizer a" "device a' = device a" by simp_all
  with assms(1) forward_model_present[OF assms(2)] show ?thesis
    by (simp add: local_state_ok_def)
qed

lemma init_local_state:
  assumes "mc \<noteq> []" and i: "init x cl tb db mc vc kk key om lm a0 w0 = (r0, a1, w1)"
  shows "local_state_ok a1"
proof (cases "truthy lm")
  case True
  from init_via_setup[OF assms(1) True i] obtain a2 name
    where a2: "\<not> use_local_model a2" and s: "setup_local_model x name a2 w0 = (r0, a1, w1)"
    by blast
  show ?thesis
    unfolding local_state_ok_def
  proof
    assume "use_local_model a1"
    from setup_loaded[OF s a2 this]
    show "local_embed_model a1 \<noteq> None \<and> local_tokenizer a1 \<noteq> None \<and> device a1 \<noteq> None"
      by auto
  qed
next
  case False
  from init_no_local[OF assms(1) False i] show ?thesis by (simp add: local_state_ok_def)
qed

lemma priv_no_attribute_error:
  assumes "local_state_ok a"
  shows "fst (priv_get_embeddings x qs a w) \<noteq> Inl (AttributeError s)"
proof (cases "truthy (openai_api_key a) \<and> truthy (model a)")
  case True
  then show ?thesis
    by (auto simp: priv_get_embeddings_def priv_get_embeddings_from_openai_def
                   first_item_def Let_def split: sum.splits list.splits)
next
  case False
  show ?thesis
  proof (cases "use_local_model a")
    case True
    with assms obtain m t d where "local_embed_model a = Some m"
      "local_tokenizer a = Some t" "device a = Some d"
      by (auto simp: local_state_ok_def)
    with False True show ?thesis
      by (auto simp: priv_get_embeddings_def priv_get_embedding_from_local_model_def
                     first_item_def Let_def split: sum.splits list.splits)
  next
    case no_local: False
    with False show ?thesis by (auto simp: priv_get_embeddings_def no_source_def)
  qed
qed

text \<open>
  Claim C8, as stated, fails. In \<^verbatim>\<open>setup_local_model\<close> the flag is assigned inside
  the \<^verbatim>\<open>try\<close>, right after the second load (line 115); the move of the model to the
  device (line 126) comes later and can raise. On a machine whose GPU cannot take the
  model, \<^verbatim>\<open>setup_local_model\<close> raises although both loads succeeded, and
  \<^verbatim>\<open>use_local_model\<close>, false before the call, is true after it.
\<close>

theorem setup_raises_with_flag_set_counterexample:
  "\<not> use_local_model plain_adapter \<and>
   fst (setup_local_model failing_device_ext ''enc'' plain_adapter empty_world) =
     Inl (InferenceError ''CUDA out of memory'') \<and>
   use_local_model
     (fst (snd (setup_local_model failing_device_ext ''enc'' plain_adapter empty_world)))"
  unfolding setup_failing_device_run
  by (simp add: plain_adapter_def)

text \<open>
  Claim C8, amended. \<^verbatim>\<open>setup_local_model\<close>, started with the flag false (as line 86
  of \<^verbatim>\<open>__init__\<close> leaves it):
  \<^item> if the flag is true afterwards, the libraries were importable, both
    \<^verbatim>\<open>from_pretrained\<close> calls returned, and the adapter holds that model, that
    tokenizer and a device;
  \<^item> if it raises \<open>ModuleNotFoundError\<close> (missing libraries) or the \<open>ValueError\<close> of a
    failed load, the flag is still false;
  \<^item> if it returns, the flag is true;
  \<^item> the flag is true afterwards exactly when the call returns or raises the error of
    the device move, which comes after both loads.
  For \<^verbatim>\<open>__init__\<close> with a non-empty column list (so that line 86 is reached): on the
  adapter it leaves, a true flag means that model, tokenizer and device are present
  (\<open>local_state_ok\<close>), and the two errors above leave the flag false. \<^verbatim>\<open>forward\<close> keeps
  \<open>local_state_ok\<close>, and on an adapter with \<open>local_state_ok\<close> \<^verbatim>\<open>_get_embeddings\<close>
  never fails for a missing local-model attribute. Nothing is said of a second
  \<^verbatim>\<open>setup_local_model\<close> on an adapter whose flag is already true.
\<close>

theorem use_local_model_only_when_loaded:
  "(setup_local_model x name a w = (r, a', w') \<and> \<not> use_local_model a \<longrightarrow>
      (use_local_model a' \<longrightarrow>
         libs_importable x \<and>
         (\<exists>m t. AutoModel_from_pretrained x name = Inr m \<and>
                AutoTokenizer_from_pretrained x name = Inr t \<and>
                local_tokenizer a' = Some t \<and>
                (local_embed_model a' = Some m \<or>
                 local_embed_model a' = Some (m\<lparr>placed_on := Some (select_device x)\<rparr>)) \<and>
                device a' = Some (select_device x))) \<and>
      (r = Inl ModuleNotFoundError \<or> (\<exists>e. r = Inl (load_failed e)) \<longrightarrow>
         \<not> use_local_model a') \<and>
      (r = Inr () \<longrightarrow> use_local_model a') \<and>
      (use_local_model a' \<longleftrightarrow> r = Inr () \<or> (\<exists>e. r = Inl (InferenceError e)))) \<and>
   (init x cl tb db mc vc kk key om lm a0 w0 = (r0, a1, w1) \<and> mc \<noteq> [] \<longrightarrow>
      local_state_ok a1 \<and>
      (r0 = Inl ModuleNotFoundError \<or> (\<exists>e. r0 = Inl (load_failed e)) \<longrightarrow>
         \<not> use_local_model a1)) \<and>
   (local_state_ok b \<and> forward x uq k_arg b wb = (rb, b', wb') \<longrightarrow> local_state_ok b') \<and>
   (local_state_ok b \<longrightarrow> (\<forall>s. fst (priv_get_embeddings x qs b wb) \<noteq> Inl (AttributeError s)))"
proof (intro conjI impI; (elim conjE)?)
  assume s: "setup_local_model x name a w = (r, a', w')" and f: "\<not> use_local_model a"
  {
    assume "use_local_model a'"
    from setup_loaded[OF s f this]
    show "libs_importable x"
      and "\<exists>m t. AutoModel_from_pretrained x name = Inr m \<and>
                AutoTokenizer_from_pretrained x name = Inr t \<and>
                local_tokenizer a' = Some t \<and>
                (local_embed_model a' = Some m \<or>
                 local_embed_model a' = Some (m\<lparr>placed_on := Some (select_device x)\<rparr>)) \<and>
                device a' = Some (select_device x)"
      by blast+
  }
  {
    assume "r = Inl ModuleNotFoundError \<or> (\<exists>e. r = Inl (load_failed e))"
    with setup_flag[OF s] f show "\<not> use_local_model a'" by blast
  }
  {
    assume "r = Inr ()"
    with setup_flag[OF s] show "use_local_model a'" by blast
  }
  show "use_local_model a' \<longleftrightarrow> r = Inr () \<or> (\<exists>e. r = Inl (InferenceError e))"
    by (rule setup_flag_iff[OF s f])
next
  assume i: "init x cl tb db mc vc kk key om lm a0 w0 = (r0, a1, w1)" and mc: "mc \<noteq> []"
  show "local_state_ok a1" by (rule init_local_state[OF mc i])
  {
    assume e: "r0 = Inl ModuleNotFoundError \<or> (\<exists>e. r0 = Inl (load_failed e))"
    show "\<not> use_local_model a1"
    proof (cases "truthy lm")
      case True
      from init_via_setup[OF mc True i] obtain a2 name
        where "\<not> use_local_model a2" "setup_local_model x name a2 w0 = (r0, a1, w1)" by blast
      with setup_flag[OF this(2)] e show ?thesis by blast
    next
      case False
      from init_no_local[OF mc False i] show ?thesis by simp
    qed
  }
next
  assume "local_state_ok b" "forward x uq k_arg b wb = (rb, b', wb')"
  then show "local_state_ok b'" by (rule forward_keeps_local_state)
next
  assume "local_state_ok b"
  then show "\<forall>s. fst (priv_get_embeddings x qs b wb) \<noteq> Inl (AttributeError s)"
    using priv_no_attribute_error by blast
qed

text \<open>
  A set-up that succeeds sets the flag, with model and tokenizer in place, and a
  retrieval on the adapter keeps it so. A set-up whose tokenizer load fails raises,
  leaves the model attribute assigned and the flag false.
\<close>

theorem use_local_model_only_when_loaded_witness:
  "\<not> use_local_model plain_adapter \<and>
   setup_local_model sample_ext ''enc'' plain_adapter empty_world =
     (Inr (), local_adapter,
      empty_world\<lparr>trace := [LoadModel ''enc'', LoadTokenizer ''enc'', MoveToDevice Cpu]\<rparr>) \<and>
   use_local_model local_adapter \<and>
   local_tokenizer local_adapter = Some (Tokenizer ''enc'') \<and>
   device local_adapter = Some Cpu \<and>
   fst (setup_local_model broken_tokenizer_ext ''enc'' plain_adapter empty_world) =
     Inl (load_failed ''not found'') \<and>
   \<not> use_local_model
       (fst (snd (setup_local_model broken_tokenizer_ext ''enc'' plain_adapter empty_world))) \<and>
   local_embed_model
       (fst (snd (setup_local_model broken_tokenizer_ext ''enc'' plain_adapter empty_world))) \<noteq>
     None \<and>
   fst (init broken_tokenizer_ext 7 ''docs'' ''default'' [''text''] ''vector'' 3
        None None (Some ''enc'') fresh_adapter empty_world) = Inl (load_failed ''not found'') \<and>
   \<not> use_local_model (fst (snd (init broken_tokenizer_ext 7 ''docs'' ''default'' [''text'']
        ''vector'' 3 None None (Some ''enc'') fresh_adapter empty_world))) \<and>
   init sample_ext 7 ''docs'' ''default'' [''text''] ''vector'' 3
        (Some ''sk'') (Some ''ada'') (Some ''enc'') fresh_adapter empty_world =
     (Inr (), both_adapter,
      empty_world\<lparr>trace := [LoadModel ''enc'', LoadTokenizer ''enc'', MoveToDevice Cpu]\<rparr>) \<and>
   use_local_model both_adapter \<and> local_state_ok both_adapter \<and>
   local_state_ok local_adapter \<and>
   local_state_ok (fst (snd (forward sample_ext (Some ''hi'') None local_adapter empty_world))) \<and>
   fst (priv_get_embeddings sample_ext [''hi''] local_adapter empty_world) =
     Inr (PList [PFloat 2, PFloat 2])"
  using use_local_model_only_when_loaded
          [where x = sample_ext and name = "''enc''" and a = plain_adapter and w = empty_world
             and r = "Inr ()" and a' = local_adapter
             and w' = "empty_world\<lparr>trace := [LoadModel ''enc'', LoadTokenizer ''enc'',
                                              MoveToDevice Cpu]\<rparr>"
             and cl = 7 and tb = "''docs''" and db = "''default''" and mc = "[''text'']"
             and vc = "''vector''" and kk = 3 and key = "Some ''sk''" and om = "Some ''ada''"
             and lm = "Some ''enc''" and ?a0.0 = fresh_adapter and ?w0.0 = empty_world
             and ?r0.0 = "Inr ()" and ?a1.0 = both_adapter
             and ?w1.0 = "empty_world\<lparr>trace := [LoadModel ''enc'', LoadTokenizer ''enc'',
                                                MoveToDevice Cpu]\<rparr>"
             and b = local_adapter and uq = "Some ''hi''" and k_arg = None and wb = empty_world
             and rb = "fst (forward sample_ext (Some ''hi'') None local_adapter empty_world)"
             and b' = "fst (snd (forward sample_ext (Some ''hi'') None local_adapter empty_world))"
             and wb' = "snd (snd (forward sample_ext (Some ''hi'') None local_adapter empty_world))"
             and qs = "[''hi'']"]
        use_local_model_only_when_loaded
          [where x = broken_tokenizer_ext and name = "''enc''" and a = plain_adapter
             and w = empty_world and r = "Inl (load_failed ''not found'')"
             and a' = "plain_adapter\<lparr>local_embed_model :=
                         Some \<lparr>model_name = ''enc'', training = True, placed_on = None\<rparr>\<rparr>"
             and w' = "empty_world\<lparr>trace := [LoadModel ''enc'', LoadTokenizer ''enc'']\<rparr>"
             and cl = 7 and tb = "''docs''" and db = "''default''" and mc = "[''text'']"
             and vc = "''vector''" and kk = 3 and key = None and om = None
             and lm = "Some ''enc''" and ?a0.0 = fresh_adapter and ?w0.0 = empty_world
             and ?r0.0 = "Inl (load_failed ''not found'')"
             and ?a1.0 = "plain_adapter\<lparr>local_embed_model :=
                         Some \<lparr>model_name = ''enc'', training = True, placed_on = None\<rparr>\<rparr>"
             and ?w1.0 = "empty_world\<lparr>trace := [LoadModel ''enc'', LoadTokenizer ''enc'']\<rparr>"]
  unfolding setup_local_run setup_broken_run init_local_run init_broken_run forward_local_run
  by (simp add: run_defs sample_defs local_state_ok_def)






subsection \<open>Any string is accepted as a query\<close>

lemma priv_trace:
  assumes "priv_get_embeddings x qs a w = (r, a', w')"
  shows "trace w' = trace w \<or> trace w' = trace w @ [OpenAICreate (model a) qs] \<or>
         trace w' = trace w @ [LocalEncode qs]"
proof (cases "truthy (openai_api_key a) \<and> truthy (model a)")
  case True
  with assms have "priv_get_embeddings_from_openai x qs a w = (r, a', w')"
    by (simp add: priv_get_embeddings_def)
  then show ?thesis by (simp add: openai_frame)
next
  case False
  show ?thesis
  proof (cases "use_local_model a")
    case True
    with False assms have "priv_get_embedding_from_local_model x qs a w = (r, a', w')"
      by (auto simp: priv_get_embeddings_def)
    from local_frame[OF this] show ?thesis by blast
  next
    case no_local: False
    with False assms show ?thesis by (auto simp: priv_get_embeddings_def)
  qed
qed

lemma priv_result:
  "fst (priv_get_embeddings x qs a w) \<noteq> Inl (ValueError ''Query is required'')"
  using openai_result[of x qs a w] local_result[of x qs a w]
  by (simp add: priv_get_embeddings_def no_source_def)

lemma get_embeddings_trace:
  assumes "get_embeddings x qs a w = (r, a1, w1)"
  shows "\<exists>es. trace w1 = trace w @ GetEmbeddings qs # es \<and> (\<forall>c s. ClientQuery c s \<notin> set es)"
proof -
  let ?w0 = "log_event (GetEmbeddings qs) w"
  have t0: "trace ?w0 = trace w @ [GetEmbeddings qs]" by (simp add: log_event_def)
  have "trace w1 = trace ?w0 \<or> trace w1 = trace ?w0 @ [OpenAICreate (model a) qs] \<or>
        trace w1 = trace ?w0 @ [LocalEncode qs]"
  proof (cases "cache_turn_on x")
    case False
    with assms have "priv_get_embeddings x qs a ?w0 = (r, a1, w1)"
      by (simp add: get_embeddings_def Let_def)
    then show ?thesis by (rule priv_trace)
  next
    case True
    with assms have c: "cached (priv_get_embeddings x) qs a ?w0 = (r, a1, w1)"
      by (simp add: get_embeddings_def Let_def)
    show ?thesis
    proof (cases "cache ?w0 qs")
      case (Some v)
      with c show ?thesis by (simp add: cached_def)
    next
      case None
      obtain r2 a2 w2 where p: "priv_get_embeddings x qs a ?w0 = (r2, a2, w2)"
        by (cases "priv_get_embeddings x qs a ?w0") auto
      with c None have "trace w1 = trace w2"
        by (auto simp: cached_def split: sum.splits)
      with priv_trace[OF p] show ?thesis by simp
    qed
  qed
  then consider "trace w1 = trace w @ GetEmbeddings qs # []"
    | "trace w1 = trace w @ GetEmbeddings qs # [OpenAICreate (model a) qs]"
    | "trace w1 = trace w @ GetEmbeddings qs # [LocalEncode qs]"
    using t0 by auto
  then show ?thesis
  proof cases
    case 1
    then show ?thesis by (intro exI[of _ "[]"]) simp
  next
    case 2
    then show ?thesis by (intro exI[of _ "[OpenAICreate (model a) qs]"]) simp
  next
    case 3
    then show ?thesis by (intro exI[of _ "[LocalEncode qs]"]) simp
  qed
qed

lemma get_embeddings_result:
  "fst (get_embeddings x qs a w) \<noteq> Inl (ValueError ''Query is required'')"
proof (cases "cache_turn_on x")
  case False
  then show ?thesis by (simp add: get_embeddings_def Let_def priv_result)
next
  case True
  let ?w0 = "log_event (GetEmbeddings qs) w"
  obtain r2 a2 w2 where p: "priv_get_embeddings x qs a ?w0 = (r2, a2, w2)"
    by (cases "priv_get_embeddings x qs a ?w0") auto
  with priv_result[of x qs a ?w0] have "r2 \<noteq> Inl (ValueError ''Query is required'')" by simp
  with True p show ?thesis
    by (auto simp: get_embeddings_def cached_def Let_def split: option.splits sum.splits)
qed

lemma row_strings_error: "row_strings x r cols \<noteq> Inl (ValueError s)"
  by (induction cols) (auto simp: row_get_def split: option.splits sum.splits)

lemma format_row_error: "format_row x cols r \<noteq> Inl (ValueError s)"
  using row_strings_error[of x r cols s]
  by (auto simp: format_row_def row_get_def split: option.splits sum.splits)

lemma collect_results_error: "collect_results x cols rows acc \<noteq> Inl (ValueError s)"
  by (induction rows arbitrary: acc) (auto simp: format_row_error split: sum.splits)

lemma forward_on_error:
  assumes "get_embeddings x [q] a w = (Inl err, a1, w1)"
  shows "forward x (Some q) k_arg a w = (Inl err, a1, w1)"
  using assms by (simp add: forward_def Let_def)

lemma forward_on_value:
  assumes emb: "get_embeddings x [q] a w = (Inr e, a1, w1)"
  shows "trace (snd (snd (forward x (Some q) k_arg a w))) =
           trace w1 @ [ClientQuery (client a)
             (build_query (py_join '', '' (metadata_columns a)) (vector_column a)
                (py_format x e) (database a) (table a)
                (py_format x (PInt (case k_arg of Some n \<Rightarrow> n | None \<Rightarrow> k a))))] \<and>
         fst (forward x (Some q) k_arg a w) \<noteq> Inl (ValueError ''Query is required'')"
proof -
  from get_embeddings_frame[OF emb] obtain m where a1: "a1 = a\<lparr>local_embed_model := m\<rparr>" ..
  show ?thesis
    using collect_results_error[of x "metadata_columns a" _ "[]" "''Query is required''"]
    by (auto simp: forward_def emb a1 Let_def log_event_def split: sum.splits)
qed

lemma forward_plain_run:
  "forward sample_ext (Some '''') None plain_adapter empty_world =
     (Inl (ValueError ''No valid method for obtaining embeddings is configured.''),
      plain_adapter, empty_world\<lparr>trace := [GetEmbeddings ['''']]\<rparr>)"
  by (simp add: run_defs sample_defs)

lemma forward_remote_run:
  "forward sample_ext (Some '''') None remote_adapter empty_world =
     (Inr \<lparr>passages = [Dotdict (PStr (''title: A'' @ newline @ ''text: alpha'')),
                        Dotdict (PStr (''title: B'' @ newline @ ''text: beta''))]\<rparr>,
      remote_adapter,
      empty_world\<lparr>trace :=
        [GetEmbeddings [''''], OpenAICreate (Some ''ada'') [''''],
         ClientQuery 7 (build_query ''title, text'' ''vector'' ''<value>'' ''default'' ''docs'' ''<value>'')]\<rparr>)"
  by (simp add: run_defs sample_defs)

text \<open>
  Claim C10, as stated, fails. The adapter built by \<^verbatim>\<open>MyScaleRM(client, "docs")\<close> has
  no embedding source. \<^verbatim>\<open>forward("")\<close> on it passes the test for \<^verbatim>\<open>None\<close>, calls
  \<^verbatim>\<open>get_embeddings\<close>, and that call raises a configuration error, the
  \<^verbatim>\<open>ValueError\<close> of \<^verbatim>\<open>_get_embeddings\<close>; \<^verbatim>\<open>forward\<close> lets it through and
  \<^verbatim>\<open>client.query\<close> is never called.
\<close>

theorem forward_empty_query_counterexample:
  "fst (forward sample_ext (Some '''') None plain_adapter empty_world) =
     Inl (ValueError ''No valid method for obtaining embeddings is configured.'') \<and>
   trace (snd (snd (forward sample_ext (Some '''') None plain_adapter empty_world))) =
     [GetEmbeddings ['''']]"
  unfolding forward_plain_run
  by (simp add: empty_world_def)

text \<open>
  Claim C10, amended. \<^verbatim>\<open>forward\<close> raises \<^verbatim>\<open>ValueError("Query is required")\<close> for
  \<^verbatim>\<open>None\<close> only: for the empty string and for every other string \<open>q\<close> it does not
  raise that error, and the first thing it does is call \<^verbatim>\<open>get_embeddings([q])\<close>.
  When that call returns an embedding, \<^verbatim>\<open>forward\<close> goes on to call
  \<^verbatim>\<open>client.query\<close>, once, with the query string built from the configuration, the
  embedding and \<^verbatim>\<open>k\<close>. When that call raises (no embedding source configured, or a
  failure of the provider), \<^verbatim>\<open>forward\<close> raises the same error and
  \<^verbatim>\<open>client.query\<close> is not called.
\<close>

theorem forward_accepts_every_string:
  assumes "forward x (Some q) k_arg a w = (r, a', w')"
  shows "r \<noteq> Inl (ValueError ''Query is required'') \<and>
         (\<exists>es. trace w' = trace w @ GetEmbeddings [q] # es) \<and>
         (\<forall>e a1 w1. get_embeddings x [q] a w = (Inr e, a1, w1) \<longrightarrow>
            trace w' = trace w1 @ [ClientQuery (client a)
              (build_query (py_join '', '' (metadata_columns a)) (vector_column a)
                 (py_format x e) (database a) (table a)
                 (py_format x (PInt (case k_arg of Some n \<Rightarrow> n | None \<Rightarrow> k a))))]) \<and>
         (\<forall>err a1 w1. get_embeddings x [q] a w = (Inl err, a1, w1) \<longrightarrow>
            r = Inl err \<and>
            (\<forall>c s. ClientQuery c s \<notin> set (drop (length (trace w)) (trace w'))))"
proof -
  obtain r1 a1 w1 where g: "get_embeddings x [q] a w = (r1, a1, w1)"
    by (cases "get_embeddings x [q] a w") auto
  from get_embeddings_trace[OF g] obtain es
    where es: "trace w1 = trace w @ GetEmbeddings [q] # es"
      and noq: "\<forall>c s. ClientQuery c s \<notin> set es" by blast
  show ?thesis
  proof (cases r1)
    case (Inl err)
    with g have f: "forward x (Some q) k_arg a w = (Inl err, a1, w1)"
      by (simp add: forward_on_error)
    with assms have eq: "r = Inl err" "w' = w1" by simp_all
    from get_embeddings_result[of x "[q]" a w] g Inl
    have "err \<noteq> ValueError ''Query is required''" by auto
    with eq es noq g Inl show ?thesis by auto
  next
    case (Inr e)
    with g have emb: "get_embeddings x [q] a w = (Inr e, a1, w1)" by simp
    from forward_on_value[OF emb, of k_arg] assms
    have "trace w' = trace w1 @ [ClientQuery (client a)
              (build_query (py_join '', '' (metadata_columns a)) (vector_column a)
                 (py_format x e) (database a) (table a)
                 (py_format x (PInt (case k_arg of Some n \<Rightarrow> n | None \<Rightarrow> k a))))]"
      and "r \<noteq> Inl (ValueError ''Query is required'')" by simp_all
    with es emb show ?thesis by auto
  qed
qed

text \<open>
  The empty string on an adapter with an OpenAI key and model: the embedding is
  requested, then the database is queried. On the adapter without an embedding source
  the error of \<^verbatim>\<open>get_embeddings\<close> comes back and no query is sent.
\<close>

theorem forward_accepts_every_string_witness:
  "fst (forward sample_ext (Some '''') None remote_adapter empty_world) =
     Inr \<lparr>passages = [Dotdict (PStr (''title: A'' @ newline @ ''text: alpha'')),
                       Dotdict (PStr (''title: B'' @ newline @ ''text: beta''))]\<rparr> \<and>
   trace (snd (snd (forward sample_ext (Some '''') None remote_adapter empty_world))) =
     [GetEmbeddings [''''], OpenAICreate (Some ''ada'') [''''],
      ClientQuery 7
        (build_query ''title, text'' ''vector'' ''<value>'' ''default'' ''docs'' ''<value>'')] \<and>
   fst (get_embeddings sample_ext [''''] plain_adapter empty_world) =
     Inl (ValueError ''No valid method for obtaining embeddings is configured.'') \<and>
   fst (forward sample_ext (Some '''') None plain_adapter empty_world) =
     Inl (ValueError ''No valid method for obtaining embeddings is configured.'') \<and>
   trace (snd (snd (forward sample_ext (Some '''') None plain_adapter empty_world))) =
     [GetEmbeddings ['''']]"
  using forward_accepts_every_string [OF forward_remote_run]
        forward_accepts_every_string [OF forward_plain_run]
  unfolding forward_remote_run forward_plain_run
  by (simp add: run_defs sample_defs)

subsection \<open>One embedding per query string\<close>

text \<open>
  Claim C1 does not hold of the code. The docstrings promise a list of embeddings, one
  for each query; both paths return element 0 of what the provider computed, a single
  vector. With the batch \<^verbatim>\<open>["a", "bb"]\<close> the endpoint answers with two embeddings and
  \<^verbatim>\<open>get_embeddings\<close> returns the first of them, a list of two numbers, not a list of
  two embeddings; the local path does the same. With the single query \<^verbatim>\<open>["hi"]\<close> the
  result is the vector itself, not a list holding it.
\<close>

theorem get_embeddings_returns_first_embedding_only:
  "embeddings_create sample_ext (Some ''ada'') [''a'', ''bb''] =
     Inr [PList [PFloat 1, PFloat 1], PList [PFloat 2, PFloat 1]] \<and>
   fst (get_embeddings sample_ext [''a'', ''bb''] remote_adapter empty_world) =
     Inr (PList [PFloat 1, PFloat 1]) \<and>
   local_encode sample_ext (Tokenizer ''enc'')
       \<lparr>model_name = ''enc'', training = False, placed_on = Some Cpu\<rparr> Cpu [''a'', ''bb''] =
     Inr [PList [PFloat 1, PFloat 2], PList [PFloat 2, PFloat 2]] \<and>
   fst (get_embeddings sample_ext [''a'', ''bb''] local_adapter empty_world) =
     Inr (PList [PFloat 1, PFloat 2]) \<and>
   fst (get_embeddings sample_ext [''hi''] remote_adapter empty_world) =
     Inr (PList [PFloat 2, PFloat 1])"
  by (simp add: run_defs sample_defs)

end
